theory Spec2Isabelle
  imports Complex_Main "HOL-Library.Sublist"
begin

section \<open>Data model\<close>

text \<open>
  The add-in's task pane (\<^verbatim>\<open>src/taskpane/components/App.tsx\<close>) works on the types of
  ExceLint's core library (\<^verbatim>\<open>ExceLintTypes\<close>), which it imports. The records below have
  the fields that the task pane reads and writes.
\<close>

text \<open>\<^verbatim>\<open>XLNT.ExceLintVector(x, y, z)\<close>: column, row, sheet index.\<close>

datatype ExceLintVector = ExceLintVector (vec_x: int) (vec_y: int) (vec_z: int)

text \<open>\<^verbatim>\<open>XLNT.Range\<close>, through the four getters the task pane uses.\<close>

record Range =
  upperLeftColumn :: int
  upperLeftRow :: int
  bottomRightColumn :: int
  bottomRightRow :: int

text \<open>\<^verbatim>\<open>XLNT.Address\<close>: a sheet name and the 1-based row and column of a cell.\<close>

record Address =
  worksheet :: string
  row :: int
  column :: int

text \<open>\<^verbatim>\<open>XLNT.Rectangle\<close>, \<^verbatim>\<open>XLNT.ProposedFix\<close> and \<^verbatim>\<open>XLNT.RectInfo\<close>.\<close>

record Rectangle =
  upperleft :: ExceLintVector
  bottomright :: ExceLintVector

record ProposedFix =
  score :: real
  rect1 :: Rectangle
  rect2 :: Rectangle

record RectInfo =
  rect :: Rectangle
  formula :: string

text \<open>\<^verbatim>\<open>XLNT.FatCross\<close>: the four arms that \<^verbatim>\<open>findFatCross\<close> returns.\<close>

record FatCross =
  up :: Range
  left :: Range
  down :: Range
  right :: Range

text \<open>
  The class \<^verbatim>\<open>OldColor\<close> of the task pane (fields \<^verbatim>\<open>color\<close> and \<^verbatim>\<open>range\<close>; the
  second is named \<open>color_range\<close> here, \<open>range\<close> being the image of a function in HOL).
\<close>

record OldColor =
  color :: string
  color_range :: Range

text \<open>
  \<^verbatim>\<open>Maybe<T>\<close> of the core's \<^verbatim>\<open>option\<close> module, by the three tags the task pane
  switches on: \<^verbatim>\<open>"no"\<close>, \<^verbatim>\<open>"possibly"\<close>, \<^verbatim>\<open>"definitely"\<close>.
\<close>

datatype 'a Maybe = No | Possibly 'a | Definitely 'a

text \<open>The one failure the design documents: looking up a key that a dictionary lacks.\<close>

datatype error = AbsentKey

text \<open>
  Modelled from the spec: the Ordered Dictionary of \<^verbatim>\<open>ExceLintTypes\<close>
  (\<^verbatim>\<open>XLNT.Dictionary\<close>), which is not among the sources, with the operations the task
  pane calls: \<^verbatim>\<open>put\<close>, \<^verbatim>\<open>contains\<close>, \<^verbatim>\<open>keyFilter\<close>, \<^verbatim>\<open>get\<close> and \<^verbatim>\<open>merge\<close>. Keys
  are unique, iteration follows insertion order, \<^verbatim>\<open>put\<close> inserts or overwrites,
  \<^verbatim>\<open>keyFilter\<close> makes a new dictionary of the entries whose key passes, and \<^verbatim>\<open>get\<close> of
  an absent key fails. The key of a vector (\<^verbatim>\<open>asKey()\<close>) is canonical: equal vectors
  have equal keys and the key stands for the vector in every lookup, so a vector-keyed
  dictionary is keyed here by the vector itself.
\<close>

type_synonym ('k, 'v) Dictionary = "('k \<times> 'v) list"

fun put :: "('k, 'v) Dictionary \<Rightarrow> 'k \<Rightarrow> 'v \<Rightarrow> ('k, 'v) Dictionary" where
  "put [] k v = [(k, v)]"
| "put ((k', v') # d) k v = (if k' = k then (k, v) # d else (k', v') # put d k v)"

definition contains :: "('k, 'v) Dictionary \<Rightarrow> 'k \<Rightarrow> bool" where
  "contains d k = (map_of d k \<noteq> None)"

definition keyFilter :: "('k, 'v) Dictionary \<Rightarrow> ('k \<Rightarrow> bool) \<Rightarrow> ('k, 'v) Dictionary" where
  "keyFilter d p = filter (\<lambda>(k, v). p k) d"

definition get :: "('k, 'v) Dictionary \<Rightarrow> 'k \<Rightarrow> error + 'v" where
  "get d k = (case map_of d k of None \<Rightarrow> Inl AbsentKey | Some v \<Rightarrow> Inr v)"

text \<open>\<^verbatim>\<open>d1.merge(d2)\<close>: on a key of both, the value of \<open>d2\<close> wins.\<close>

definition merge :: "('k, 'v) Dictionary \<Rightarrow> ('k, 'v) Dictionary \<Rightarrow> ('k, 'v) Dictionary" where
  "merge d1 d2 = fold (\<lambda>(k, v) d. put d k v) d2 d1"

section \<open>Reading the formulas of a range\<close>

text \<open>
  \<^verbatim>\<open>App.getFormulasFromRange(ws, r, context)\<close>. The host's answer to
  \<^verbatim>\<open>range.load("formulas")\<close> is the argument \<open>formulas\<close>, a list of rows of strings.
  The cells are strings, as the source declares them (\<^verbatim>\<open>string[][]\<close>). The two loops
  run over the row index and the column index; \<^verbatim>\<open>val[0]\<close> of an empty string is
  \<^verbatim>\<open>undefined\<close>, which equals none of the three markers.
\<close>

fun formulas_cols ::
  "int \<Rightarrow> int \<Rightarrow> nat \<Rightarrow> nat \<Rightarrow> string list \<Rightarrow> (ExceLintVector, string) Dictionary
    \<Rightarrow> (ExceLintVector, string) Dictionary" where
  "formulas_cols origin_x origin_y rw c [] d = d"
| "formulas_cols origin_x origin_y rw c (val # vals) d =
     formulas_cols origin_x origin_y rw (Suc c) vals
       (case val of
          [] \<Rightarrow> d
        | v0 # rest \<Rightarrow>
            if v0 = CHR ''='' \<or> v0 = CHR ''+'' \<or> v0 = CHR ''-'' then
              let key = ExceLintVector (origin_x + int c) (origin_y + int rw) 0 in
              if v0 = CHR ''='' then put d key (drop 1 val) else put d key val
            else d)"

fun formulas_rows ::
  "int \<Rightarrow> int \<Rightarrow> nat \<Rightarrow> string list list \<Rightarrow> (ExceLintVector, string) Dictionary
    \<Rightarrow> (ExceLintVector, string) Dictionary" where
  "formulas_rows origin_x origin_y rw [] d = d"
| "formulas_rows origin_x origin_y rw (vals # rest) d =
     formulas_rows origin_x origin_y (Suc rw) rest (formulas_cols origin_x origin_y rw 0 vals d)"

definition getFormulasFromRange ::
  "Range \<Rightarrow> string list list \<Rightarrow> (ExceLintVector, string) Dictionary" where
  "getFormulasFromRange r formulas =
     formulas_rows (upperLeftColumn r) (upperLeftRow r) 0 formulas []"

section \<open>Functions of the core that the analysis calls\<close>

text \<open>
  The analysis of the task pane calls ExceLint's core (\<^verbatim>\<open>Colorize\<close>,
  \<^verbatim>\<open>RectangleUtils\<close>, \<^verbatim>\<open>ExceLintTypes\<close>), whose code is not among the sources. The
  functions of this section follow the design document; the others are parameters of the
  analysis (record \<open>Collaborators\<close> below).
\<close>

text \<open>
  Modelled from the spec: \<^verbatim>\<open>ProposedFix.includesCellAt\<close>, missing from the sources.
  ``A fix includes a cell if either rectangle contains it''; rectangles are sheet-local,
  so containment compares columns and rows.
\<close>

definition rect_contains :: "Rectangle \<Rightarrow> ExceLintVector \<Rightarrow> bool" where
  "rect_contains r v =
     (vec_x (upperleft r) \<le> vec_x v \<and> vec_x v \<le> vec_x (bottomright r) \<and>
      vec_y (upperleft r) \<le> vec_y v \<and> vec_y v \<le> vec_y (bottomright r))"

definition includesCellAt :: "ProposedFix \<Rightarrow> Address \<Rightarrow> bool" where
  "includesCellAt pf addr =
     (rect_contains (rect1 pf) (ExceLintVector (column addr) (row addr) 0) \<or>
      rect_contains (rect2 pf) (ExceLintVector (column addr) (row addr) 0))"

text \<open>
  Modelled from the spec: \<^verbatim>\<open>Colorize.filterFixesByUserThreshold\<close>, missing from the
  sources. ``Drop any fix whose score is numerically less suspicious than threshold.''
\<close>

definition filterFixesByUserThreshold :: "ProposedFix list \<Rightarrow> real \<Rightarrow> ProposedFix list" where
  "filterFixesByUserThreshold fixes threshold = filter (\<lambda>pf. \<not> score pf < threshold) fixes"

text \<open>
  Modelled from the spec: \<^verbatim>\<open>Colorize.adjustProposedFixesByStyleHash\<close>, missing from the
  sources. ``For each remaining fix, compare the style hash of representative cells in
  rect1 vs rect2; if they differ, reduce the fix's score in place.'' The representative
  cell of a rectangle is its upper-left cell, as in the task pane's \<^verbatim>\<open>rectf\<close>; a cell
  without a recorded style has no hash, and two cells without one do not differ. The
  design gives no amount for the reduction: it is the parameter \<open>reduce\<close>. The source
  mutates the fixes; the model returns the list after the mutation.
\<close>

definition adjustProposedFixesByStyleHash ::
  "(real \<Rightarrow> real) \<Rightarrow> ProposedFix list \<Rightarrow> (ExceLintVector, string) Dictionary \<Rightarrow> ProposedFix list" where
  "adjustProposedFixesByStyleHash reduce fixes styles =
     map (\<lambda>pf.
            if map_of styles (upperleft (rect1 pf)) \<noteq> map_of styles (upperleft (rect2 pf))
            then pf\<lparr>score := reduce (score pf)\<rparr>
            else pf)
       fixes"

text \<open>
  Modelled from the spec: \<^verbatim>\<open>Colorize.filterDuplicateFixes\<close>, missing from the sources.
  ``Remove fixes that are pair-equal (same two rectangles, either order) to any earlier
  fix in the list, preserving the first occurrence's order.'' The loop keeps the fixes
  retained so far and appends a fix when none of them is pair-equal to it.
\<close>

definition pair_equal :: "ProposedFix \<Rightarrow> ProposedFix \<Rightarrow> bool" where
  "pair_equal f g =
     ((rect1 f = rect1 g \<and> rect2 f = rect2 g) \<or> (rect1 f = rect2 g \<and> rect2 f = rect1 g))"

fun dedup_loop :: "ProposedFix list \<Rightarrow> ProposedFix list \<Rightarrow> ProposedFix list" where
  "dedup_loop kept [] = kept"
| "dedup_loop kept (f # fs) =
     (if list_ex (\<lambda>g. pair_equal g f) kept then dedup_loop kept fs
      else dedup_loop (kept @ [f]) fs)"

definition filterDuplicateFixes :: "ProposedFix list \<Rightarrow> ProposedFix list" where
  "filterDuplicateFixes fixes = dedup_loop [] fixes"

text \<open>
  Modelled from the spec: \<^verbatim>\<open>Colorize.mergeRectangles\<close> and the mergeability of two
  rectangles, missing from the sources. ``Two rectangles are mergeable if they are
  fingerprint-equal and either adjacent (sharing a full edge) or overlapping, and their
  union is itself a rectangle''; within the list of one fingerprint all rectangles are
  fingerprint-equal. ``For each fingerprint's rectangle list, repeatedly coalesce any pair
  of mergeable rectangles into their union until no further merges are possible.'' One
  step takes the first rectangle that has a mergeable partner later in the list, puts the
  union in its place and removes the partner.
\<close>

definition overlapping :: "Rectangle \<Rightarrow> Rectangle \<Rightarrow> bool" where
  "overlapping r s =
     (vec_x (upperleft r) \<le> vec_x (bottomright s) \<and> vec_x (upperleft s) \<le> vec_x (bottomright r) \<and>
      vec_y (upperleft r) \<le> vec_y (bottomright s) \<and> vec_y (upperleft s) \<le> vec_y (bottomright r))"

definition same_columns :: "Rectangle \<Rightarrow> Rectangle \<Rightarrow> bool" where
  "same_columns r s =
     (vec_x (upperleft r) = vec_x (upperleft s) \<and> vec_x (bottomright r) = vec_x (bottomright s))"

definition same_rows :: "Rectangle \<Rightarrow> Rectangle \<Rightarrow> bool" where
  "same_rows r s =
     (vec_y (upperleft r) = vec_y (upperleft s) \<and> vec_y (bottomright r) = vec_y (bottomright s))"

definition adjacent :: "Rectangle \<Rightarrow> Rectangle \<Rightarrow> bool" where
  "adjacent r s =
     ((same_columns r s \<and>
        (vec_y (bottomright r) + 1 = vec_y (upperleft s) \<or> vec_y (bottomright s) + 1 = vec_y (upperleft r))) \<or>
      (same_rows r s \<and>
        (vec_x (bottomright r) + 1 = vec_x (upperleft s) \<or> vec_x (bottomright s) + 1 = vec_x (upperleft r))))"

definition covers :: "Rectangle \<Rightarrow> Rectangle \<Rightarrow> bool" where
  "covers r s = (rect_contains r (upperleft s) \<and> rect_contains r (bottomright s))"

definition union_is_rectangle :: "Rectangle \<Rightarrow> Rectangle \<Rightarrow> bool" where
  "union_is_rectangle r s =
     (adjacent r s \<or> covers r s \<or> covers s r \<or>
      (overlapping r s \<and> (same_columns r s \<or> same_rows r s)))"

definition mergeable :: "Rectangle \<Rightarrow> Rectangle \<Rightarrow> bool" where
  "mergeable r s = ((adjacent r s \<or> overlapping r s) \<and> union_is_rectangle r s)"

definition rect_union :: "Rectangle \<Rightarrow> Rectangle \<Rightarrow> Rectangle" where
  "rect_union r s =
     \<lparr>upperleft = ExceLintVector (min (vec_x (upperleft r)) (vec_x (upperleft s)))
                   (min (vec_y (upperleft r)) (vec_y (upperleft s))) (vec_z (upperleft r)),
      bottomright = ExceLintVector (max (vec_x (bottomright r)) (vec_x (bottomright s)))
                   (max (vec_y (bottomright r)) (vec_y (bottomright s))) (vec_z (bottomright r))\<rparr>"

text \<open>The invariant of a rectangle: the upper-left corner is not beyond the bottom-right.\<close>

definition well_formed :: "Rectangle \<Rightarrow> bool" where
  "well_formed r =
     (vec_x (upperleft r) \<le> vec_x (bottomright r) \<and> vec_y (upperleft r) \<le> vec_y (bottomright r))"

fun coalesce_with :: "Rectangle \<Rightarrow> Rectangle list \<Rightarrow> (Rectangle \<times> Rectangle list) option" where
  "coalesce_with r [] = None"
| "coalesce_with r (s # rs) =
     (if mergeable r s then Some (rect_union r s, rs)
      else (case coalesce_with r rs of
              None \<Rightarrow> None
            | Some (u, rest) \<Rightarrow> Some (u, s # rest)))"

fun merge_step :: "Rectangle list \<Rightarrow> Rectangle list option" where
  "merge_step [] = None"
| "merge_step (r # rs) =
     (case coalesce_with r rs of
        Some (u, rest) \<Rightarrow> Some (u # rest)
      | None \<Rightarrow> (case merge_step rs of None \<Rightarrow> None | Some rs' \<Rightarrow> Some (r # rs')))"

lemma coalesce_with_length: "coalesce_with r rs = Some (u, rest) \<Longrightarrow> Suc (length rest) = length rs"
  by (induction rs arbitrary: u rest) (auto split: if_splits option.splits)

lemma merge_step_length: "merge_step rs = Some rs' \<Longrightarrow> Suc (length rs') = length rs"
  by (induction rs arbitrary: rs') (auto split: option.splits dest: coalesce_with_length)

function merge_rects :: "Rectangle list \<Rightarrow> Rectangle list" where
  "merge_rects rs = (case merge_step rs of None \<Rightarrow> rs | Some rs' \<Rightarrow> merge_rects rs')"
  by pat_completeness auto
termination
  by (relation "measure length") (auto dest: merge_step_length)

declare merge_rects.simps [simp del]

definition mergeRectangles ::
  "('f, Rectangle list) Dictionary \<Rightarrow> ('f, Rectangle list) Dictionary" where
  "mergeRectangles groups = map (\<lambda>(fp, rs). (fp, merge_rects rs)) groups"

text \<open>
  Modelled from the spec: \<^verbatim>\<open>Colorize.filterFix\<close>, missing from the sources. ``Final
  heuristic veto: given each rectangle's representative formula text, suppress fixes that
  are explainable by benign patterns. Returns either no value (suppressed) or the
  (possibly unchanged) fix.'' The two representative formulas come from the lookup it is
  given, first for \<^verbatim>\<open>rect1\<close>, then for \<^verbatim>\<open>rect2\<close>; a lookup that fails ends the call
  with its error. Which fixes are benign is the parameter \<open>benign\<close>. The fix returned is
  the fix given, a pair of rectangles; the design lets it come back changed, and what a
  fix has besides its rectangles is its score, the parameter \<open>vetted_score\<close>.
\<close>

definition filterFix ::
  "(ProposedFix \<Rightarrow> RectInfo \<Rightarrow> RectInfo \<Rightarrow> bool \<Rightarrow> bool)
    \<Rightarrow> (ProposedFix \<Rightarrow> RectInfo \<Rightarrow> RectInfo \<Rightarrow> bool \<Rightarrow> real)
    \<Rightarrow> ProposedFix \<Rightarrow> (Rectangle \<Rightarrow> error + RectInfo) \<Rightarrow> bool \<Rightarrow> error + ProposedFix option" where
  "filterFix is_benign new_score fix rectInfoLookup strict =
     (case rectInfoLookup (rect1 fix) of
        Inl e \<Rightarrow> Inl e
      | Inr info1 \<Rightarrow>
          (case rectInfoLookup (rect2 fix) of
             Inl e \<Rightarrow> Inl e
           | Inr info2 \<Rightarrow>
               Inr (if is_benign fix info1 info2 strict then None
                    else Some (fix\<lparr>score := new_score fix info1 info2 strict\<rparr>))))"

text \<open>
  The remaining functions of the core and the host (Excel) are parameters. A value of
  type \<open>'w\<close> is the state of the worksheet.
  \<^item> \<open>range_formulas\<close>, \<open>fill_color\<close>, \<open>set_fill_color\<close>, \<open>clear_fill\<close>,
    \<open>cell_format\<close>: what Excel answers to \<^verbatim>\<open>range.load("formulas")\<close>, to
    \<^verbatim>\<open>range.load("format/fill/color")\<close> (\<open>None\<close> when the request throws), the two
    writes of the fill, and the three JSON texts of a cell's format, concatenated.
  \<^item> \<open>styleHash\<close>: \<^verbatim>\<open>ExcelJSON.styleHash\<close>.
  \<^item> \<open>findFatCross\<close>: \<^verbatim>\<open>RectangleUtils.findFatCross\<close>; \<open>expand\<close>:
    \<^verbatim>\<open>range.rectangle().expand()\<close>, the vectors of a range.
  \<^item> \<open>relativeFormulaRefs\<close>, \<open>fingerprints\<close>, \<open>identify_groups\<close>,
    \<open>mergeRectangleDictionaries\<close>, \<open>generate_proposed_fixes\<close>: the functions of
    \<^verbatim>\<open>Colorize\<close> of these names; fingerprints are keys (strings).
  \<^item> \<open>reportingThreshold\<close>: \<^verbatim>\<open>Config.reportingThreshold\<close>; \<open>style_discount\<close>: the
    reduction that \<^verbatim>\<open>adjustProposedFixesByStyleHash\<close> applies; \<open>benign\<close> and
    \<open>vetted_score\<close>: the heuristics of \<^verbatim>\<open>filterFix\<close>.
  The parameters are functions that return: a run in which one of them throws is not
  described. The failure that is described is the dictionary lookup of the task pane's
  closure \<^verbatim>\<open>rectf\<close>, which \<^verbatim>\<open>filterFix\<close> passes on.
\<close>

record 'w Collaborators =
  range_formulas :: "'w \<Rightarrow> Range \<Rightarrow> string list list"
  fill_color :: "'w \<Rightarrow> Range \<Rightarrow> string option"
  set_fill_color :: "'w \<Rightarrow> Range \<Rightarrow> string \<Rightarrow> 'w"
  clear_fill :: "'w \<Rightarrow> Range \<Rightarrow> 'w"
  cell_format :: "'w \<Rightarrow> int \<Rightarrow> int \<Rightarrow> string"
  styleHash :: "string \<Rightarrow> string"
  findFatCross :: "Range \<Rightarrow> Address \<Rightarrow> FatCross"
  expand :: "Range \<Rightarrow> ExceLintVector list"
  relativeFormulaRefs ::
    "(ExceLintVector, string) Dictionary \<Rightarrow> (ExceLintVector, ExceLintVector list) Dictionary"
  fingerprints ::
    "(ExceLintVector, ExceLintVector list) Dictionary \<Rightarrow> (ExceLintVector, string) Dictionary"
  identify_groups :: "(ExceLintVector, string) Dictionary \<Rightarrow> (string, Rectangle list) Dictionary"
  mergeRectangleDictionaries ::
    "(string, Rectangle list) Dictionary \<Rightarrow> (string, Rectangle list) Dictionary
      \<Rightarrow> (string, Rectangle list) Dictionary"
  generate_proposed_fixes :: "(string, Rectangle list) Dictionary \<Rightarrow> ProposedFix list"
  reportingThreshold :: real
  style_discount :: "real \<Rightarrow> real"
  benign :: "ProposedFix \<Rightarrow> RectInfo \<Rightarrow> RectInfo \<Rightarrow> bool \<Rightarrow> bool"
  vetted_score :: "ProposedFix \<Rightarrow> RectInfo \<Rightarrow> RectInfo \<Rightarrow> bool \<Rightarrow> real"

section \<open>The task pane's host functions\<close>

text \<open>
  \<^verbatim>\<open>App.colorRange(ws, r, color, context)\<close>: the old colour is read inside a
  \<^verbatim>\<open>try\<close>; when the read throws, the \<^verbatim>\<open>catch\<close> logs and the function returns the
  initial \<^verbatim>\<open>oldColor = ""\<close> without writing. The result is the old colour and the
  worksheet after the write.
\<close>

definition colorRange :: "'w Collaborators \<Rightarrow> 'w \<Rightarrow> Range \<Rightarrow> string \<Rightarrow> OldColor \<times> 'w" where
  "colorRange env ws r c =
     (case fill_color env ws r of
        None \<Rightarrow> (\<lparr>color = [], color_range = r\<rparr>, ws)
      | Some oldColor \<Rightarrow>
          if c = oldColor then (\<lparr>color = c, color_range = r\<rparr>, ws)
          else if c = ''#FFFFFF'' then (\<lparr>color = oldColor, color_range = r\<rparr>, clear_fill env ws r)
          else (\<lparr>color = oldColor, color_range = r\<rparr>, set_fill_color env ws r c))"

text \<open>
  \<^verbatim>\<open>App.getFormattingFromRange(ws, r, context)\<close>: rows from \<^verbatim>\<open>ul_y\<close> to \<^verbatim>\<open>br_y\<close>,
  columns from \<^verbatim>\<open>ul_x\<close> to \<^verbatim>\<open>br_x\<close>, one hash for each cell.
\<close>

definition getFormattingFromRange ::
  "'w Collaborators \<Rightarrow> 'w \<Rightarrow> Range \<Rightarrow> (ExceLintVector, string) Dictionary" where
  "getFormattingFromRange env ws r =
     fold (\<lambda>rw d.
             fold (\<lambda>c d'. put d' (ExceLintVector c rw 0) (styleHash env (cell_format env ws rw c)))
               [upperLeftColumn r..bottomRightColumn r] d)
       [upperLeftRow r..bottomRightRow r] []"

section \<open>The staged incremental analysis\<close>

text \<open>
  \<^verbatim>\<open>incrementalFatCrossAnalysis(context, ws, rng, addr, use_colors_for_debugging,
  use_styles)\<close>, an asynchronous generator. The state that lives across its iterations:
\<close>

record 'w AnalysisState =
  rects :: "(string, Rectangle list) Dictionary"
  styles :: "(ExceLintVector, string) Dictionary"
  old_colors :: "OldColor list"
  proposed_fixes :: "ProposedFix list"
  sheet :: "'w"

definition debug_colors :: "string list" where
  "debug_colors = [''#CBAACB'', ''#FFCCB6'', ''#ABDEE6'', ''#F3B0C3'']"

text \<open>
  The closure \<^verbatim>\<open>rectf\<close>: the formula of the rectangle's upper-left cell, by
  \<^verbatim>\<open>all_formulas.get\<close>.
\<close>

definition rectf :: "(ExceLintVector, string) Dictionary \<Rightarrow> Rectangle \<Rightarrow> error + RectInfo" where
  "rectf all_formulas r =
     (case get all_formulas (upperleft r) of
        Inl e \<Rightarrow> Inl e
      | Inr firstFormula \<Rightarrow> Inr \<lparr>rect = r, formula = firstFormula\<rparr>)"

text \<open>
  The loop \<^verbatim>\<open>for (const fix of pfs4)\<close>: fixes that pass \<^verbatim>\<open>filterFix\<close> are pushed to
  \<^verbatim>\<open>proposed_fixes\<close> (the accumulator); an exception leaves the loop.
\<close>

fun filter_with_heuristics ::
  "'w Collaborators \<Rightarrow> (ExceLintVector, string) Dictionary \<Rightarrow> ProposedFix list
    \<Rightarrow> ProposedFix list \<Rightarrow> error + ProposedFix list" where
  "filter_with_heuristics env all_formulas [] acc = Inr acc"
| "filter_with_heuristics env all_formulas (fix # rest) acc =
     (case filterFix (benign env) (vetted_score env) fix (rectf all_formulas) True of
        Inl e \<Rightarrow> Inl e
      | Inr None \<Rightarrow> filter_with_heuristics env all_formulas rest acc
      | Inr (Some v) \<Rightarrow> filter_with_heuristics env all_formulas rest (acc @ [v]))"

text \<open>
  One iteration of \<^verbatim>\<open>for (let i = 0; i < steps.length; i++)\<close>, up to the yield. The
  body reads \<^verbatim>\<open>steps[i]\<close> and \<^verbatim>\<open>debug_colors[i]\<close>: they are the arguments \<open>step\<close>
  and \<open>debug_color\<close>.
\<close>

definition stage ::
  "'w Collaborators \<Rightarrow> (ExceLintVector, string) Dictionary \<Rightarrow> Range \<Rightarrow> string \<Rightarrow> Address \<Rightarrow> bool
    \<Rightarrow> bool \<Rightarrow> 'w AnalysisState \<Rightarrow> error + 'w AnalysisState" where
  "stage env all_formulas step debug_color addr use_colors_for_debugging use_styles st =
     (let colored =
            (if use_colors_for_debugging
             then (case colorRange env (sheet st) step debug_color of
                     (oc, ws') \<Rightarrow> (old_colors st @ [oc], ws'))
             else (old_colors st, sheet st));
          fAddrs = expand env step;
          fAddrDict = fold (\<lambda>f d. put d f f) fAddrs [];
          fs = keyFilter all_formulas (\<lambda>k. contains fAddrDict k);
          ss = (if use_styles then getFormattingFromRange env (snd colored) step else []);
          styles' = merge (styles st) ss;
          fRefs = relativeFormulaRefs env fs;
          fps = fingerprints env fRefs;
          stepRects = identify_groups env fps;
          rects' = mergeRectangles (mergeRectangleDictionaries env stepRects (rects st));
          pfs = generate_proposed_fixes env rects';
          pfs2 = filterDuplicateFixes pfs;
          pfs3 = filter (\<lambda>pf. includesCellAt pf addr) pfs2;
          pfs4 = filterFixesByUserThreshold pfs3 (reportingThreshold env);
          adjusted = adjustProposedFixesByStyleHash (style_discount env) pfs4 styles'
      in case filter_with_heuristics env all_formulas adjusted [] of
           Inl e \<Rightarrow> Inl e
         | Inr fixes \<Rightarrow>
             Inr \<lparr>rects = rects', styles = styles', old_colors = fst colored,
                  proposed_fixes = fixes, sheet = snd colored\<rparr>)"

text \<open>
  The loop with its yields. The result is the list of the values yielded, in order, and
  the state after the loop, or the exception that ended the generator. The body runs with
  \<open>i < length steps\<close> only, and \<open>steps\<close> has four entries, as \<open>debug_colors\<close> has. The
  tuple of a yield holds \<^verbatim>\<open>old_colors\<close> by reference; the model records its contents at
  the yield.
\<close>

type_synonym Verdict = "(ProposedFix list \<times> OldColor list) Maybe"

function stages_from ::
  "'w Collaborators \<Rightarrow> (ExceLintVector, string) Dictionary \<Rightarrow> Range list \<Rightarrow> Address \<Rightarrow> bool
    \<Rightarrow> bool \<Rightarrow> nat \<Rightarrow> 'w AnalysisState \<Rightarrow> Verdict list \<times> (error + 'w AnalysisState)" where
  "stages_from env all_formulas steps addr use_colors_for_debugging use_styles i st =
     (if i < length steps then
        (case stage env all_formulas (steps ! i) (debug_colors ! i) addr use_colors_for_debugging
                use_styles st of
           Inl e \<Rightarrow> ([], Inl e)
         | Inr st' \<Rightarrow>
             (case stages_from env all_formulas steps addr use_colors_for_debugging use_styles
                     (Suc i) st' of
                (ys, res) \<Rightarrow>
                  ((if i = length steps - 1 then
                      (if proposed_fixes st' = [] then No
                       else Definitely (proposed_fixes st', old_colors st'))
                    else Possibly (proposed_fixes st', old_colors st')) # ys,
                   res)))
      else ([], Inr st))"
  by pat_completeness auto
termination
  by (relation "measure (\<lambda>(env, all_formulas, steps, addr, dbg, sty, i, st). length steps - i)") auto

declare stages_from.simps [simp del]

record Run =
  yielded :: "Verdict list"
  returned :: "error + Verdict"

definition incrementalFatCrossAnalysis ::
  "'w Collaborators \<Rightarrow> 'w \<Rightarrow> Range \<Rightarrow> Address \<Rightarrow> bool \<Rightarrow> bool \<Rightarrow> Run" where
  "incrementalFatCrossAnalysis env ws rng addr use_colors_for_debugging use_styles =
     (let fc = findFatCross env rng addr;
          steps = [up fc, left fc, down fc, right fc];
          all_formulas = getFormulasFromRange rng (range_formulas env ws rng)
      in case stages_from env all_formulas steps addr use_colors_for_debugging use_styles 0
                \<lparr>rects = [], styles = [], old_colors = [], proposed_fixes = [], sheet = ws\<rparr> of
           (ys, res) \<Rightarrow>
             \<lparr>yielded = ys,
              returned =
                (case res of
                   Inl e \<Rightarrow> Inl e
                 | Inr st \<Rightarrow>
                     Inr (if proposed_fixes st = [] then No
                          else Definitely (proposed_fixes st, old_colors st)))\<rparr>)"

section \<open>A concrete instance of the collaborators\<close>

text \<open>
  To evaluate the analysis on a concrete sheet the parameters need values. The instance
  below is a small stand-in for the core, not its algorithms:
  \<^item> the worksheet state is the list of fills written so far; every range of the sheet
    answers with the same grid of formulas, and an unwritten fill is white;
  \<^item> the arms of the fat cross are the column above and below the target and the row
    left and right of it, within the range, each with the target cell;
  \<^item> every character of a formula stands for one reference (the offset whose column
    is the character's code), and a fingerprint is the text these offsets spell;
  \<^item> every formula cell is a rectangle of its own; the dictionaries of two stages are
    merged by concatenating the lists of a fingerprint;
  \<^item> a fix is proposed, with score 1, for two rectangles of different fingerprints
    that are adjacent or overlap, in both orders;
  \<^item> a fix with an empty representative formula is benign, and a fix that passes
    keeps its score.
\<close>

definition sample_findFatCross :: "Range \<Rightarrow> Address \<Rightarrow> FatCross" where
  "sample_findFatCross rng addr =
     \<lparr>up = \<lparr>upperLeftColumn = column addr, upperLeftRow = upperLeftRow rng,
             bottomRightColumn = column addr, bottomRightRow = row addr\<rparr>,
      left = \<lparr>upperLeftColumn = upperLeftColumn rng, upperLeftRow = row addr,
               bottomRightColumn = column addr, bottomRightRow = row addr\<rparr>,
      down = \<lparr>upperLeftColumn = column addr, upperLeftRow = row addr,
               bottomRightColumn = column addr, bottomRightRow = bottomRightRow rng\<rparr>,
      right = \<lparr>upperLeftColumn = column addr, upperLeftRow = row addr,
                bottomRightColumn = bottomRightColumn rng, bottomRightRow = row addr\<rparr>\<rparr>"

definition sample_expand :: "Range \<Rightarrow> ExceLintVector list" where
  "sample_expand r =
     concat (map (\<lambda>rw. map (\<lambda>c. ExceLintVector c rw 0) [upperLeftColumn r..bottomRightColumn r])
               [upperLeftRow r..bottomRightRow r])"

definition sample_relativeFormulaRefs ::
  "(ExceLintVector, string) Dictionary \<Rightarrow> (ExceLintVector, ExceLintVector list) Dictionary" where
  "sample_relativeFormulaRefs fs =
     map (\<lambda>(k, f). (k, map (\<lambda>ch. ExceLintVector (of_char ch) 0 0) f)) fs"

definition sample_fingerprints ::
  "(ExceLintVector, ExceLintVector list) Dictionary \<Rightarrow> (ExceLintVector, string) Dictionary" where
  "sample_fingerprints refs = map (\<lambda>(k, vs). (k, map (\<lambda>v. char_of (vec_x v)) vs)) refs"

definition append_group ::
  "(string, Rectangle list) Dictionary \<Rightarrow> string \<Rightarrow> Rectangle list \<Rightarrow> (string, Rectangle list) Dictionary" where
  "append_group d fp rs = put d fp ((case map_of d fp of None \<Rightarrow> [] | Some rs0 \<Rightarrow> rs0) @ rs)"

definition sample_identify_groups ::
  "(ExceLintVector, string) Dictionary \<Rightarrow> (string, Rectangle list) Dictionary" where
  "sample_identify_groups fps =
     fold (\<lambda>(k, fp) d. append_group d fp [\<lparr>upperleft = k, bottomright = k\<rparr>]) fps []"

definition sample_mergeRectangleDictionaries ::
  "(string, Rectangle list) Dictionary \<Rightarrow> (string, Rectangle list) Dictionary
    \<Rightarrow> (string, Rectangle list) Dictionary" where
  "sample_mergeRectangleDictionaries newGroups oldGroups =
     fold (\<lambda>(fp, rs) d. append_group d fp rs) newGroups oldGroups"

definition sample_generate_proposed_fixes ::
  "(string, Rectangle list) Dictionary \<Rightarrow> ProposedFix list" where
  "sample_generate_proposed_fixes groups =
     concat (map (\<lambda>(fp, rs). concat (map (\<lambda>r. concat (map (\<lambda>(fq, ss).
       map (\<lambda>s. \<lparr>score = 1, rect1 = r, rect2 = s\<rparr>)
         (filter (\<lambda>s. fp \<noteq> fq \<and> (adjacent r s \<or> overlapping r s)) ss)) groups)) rs)) groups)"

definition sample :: "string list list \<Rightarrow> ((Range \<times> string) list) Collaborators" where
  "sample grid =
     \<lparr>range_formulas = (\<lambda>ws r. grid),
      fill_color = (\<lambda>ws r. Some (case map_of ws r of None \<Rightarrow> ''#FFFFFF'' | Some c \<Rightarrow> c)),
      set_fill_color = (\<lambda>ws r c. (r, c) # ws),
      clear_fill = (\<lambda>ws r. (r, ''#FFFFFF'') # ws),
      cell_format = (\<lambda>ws rw c. []),
      styleHash = (\<lambda>s. s),
      findFatCross = sample_findFatCross,
      expand = sample_expand,
      relativeFormulaRefs = sample_relativeFormulaRefs,
      fingerprints = sample_fingerprints,
      identify_groups = sample_identify_groups,
      mergeRectangleDictionaries = sample_mergeRectangleDictionaries,
      generate_proposed_fixes = sample_generate_proposed_fixes,
      reportingThreshold = 1 / 2,
      style_discount = (\<lambda>s. s / 2),
      benign = (\<lambda>fix info1 info2 strict. formula info1 = [] \<or> formula info2 = []),
      vetted_score = (\<lambda>fix info1 info2 strict. score fix)\<rparr>"

text \<open>
  A concrete sheet for the instance: column A with \<open>=B\<close> in row 1 and \<open>=A\<close> in row 2,
  its used range, the cell A2 as target, and the fix between the two cells.
\<close>

definition two_shapes :: "string list list" where
  "two_shapes = [[''=B''], [''=A'']]"

definition used_range :: Range where
  "used_range = \<lparr>upperLeftColumn = 1, upperLeftRow = 1, bottomRightColumn = 1, bottomRightRow = 2\<rparr>"

definition target :: Address where
  "target = \<lparr>worksheet = ''Sheet1'', row = 2, column = 1\<rparr>"

definition cell_rect :: "int \<Rightarrow> int \<Rightarrow> Rectangle" where
  "cell_rect c rw = \<lparr>upperleft = ExceLintVector c rw 0, bottomright = ExceLintVector c rw 0\<rparr>"

definition found_fix :: ProposedFix where
  "found_fix = \<lparr>score = 1, rect1 = cell_rect 1 1, rect2 = cell_rect 1 2\<rparr>"

section \<open>Auxiliary definitions for the statements and proofs\<close>


text \<open>
  The entries that one row of the grid contributes to the dictionary of formulas, from
  column index \<open>c\<close> on.
\<close>

definition row_entries ::
  "int \<Rightarrow> int \<Rightarrow> nat \<Rightarrow> nat \<Rightarrow> string list \<Rightarrow> (ExceLintVector, string) Dictionary" where
  "row_entries origin_x origin_y rw c vals =
     map (\<lambda>(j, val). (ExceLintVector (origin_x + int j) (origin_y + int rw) 0,
                       if hd val = CHR ''='' then drop 1 val else val))
       (filter (\<lambda>(j, val). val \<noteq> [] \<and>
                  (hd val = CHR ''='' \<or> hd val = CHR ''+'' \<or> hd val = CHR ''-''))
          (enumerate c vals))"

text \<open>
  The first occurrences of a list of fixes up to pair-equality, where \<open>seen\<close> are the
  fixes before the list.
\<close>

fun firsts :: "ProposedFix list \<Rightarrow> ProposedFix list \<Rightarrow> ProposedFix list" where
  "firsts seen [] = []"
| "firsts seen (f # fs) =
     (if list_ex (\<lambda>g. pair_equal g f) seen then firsts (seen @ [f]) fs
      else f # firsts (seen @ [f]) fs)"

section \<open>The dictionary of formulas\<close>

lemma put_fresh: "k \<notin> fst ` set d \<Longrightarrow> put d k v = d @ [(k, v)]"
  by (induction d) auto

lemma row_entries_keys:
  "k \<in> fst ` set (row_entries ox oy rw c vals) \<Longrightarrow> vec_y k = oy + int rw \<and> ox + int c \<le> vec_x k"
  by (auto simp: row_entries_def in_set_enumerate_eq)

lemma formulas_cols_append:
  "\<forall>k \<in> fst ` set d. vec_y k = oy + int rw \<longrightarrow> vec_x k < ox + int c \<Longrightarrow>
   formulas_cols ox oy rw c vals d = d @ row_entries ox oy rw c vals"
proof (induction vals arbitrary: c d)
  case Nil
  then show ?case by (simp add: row_entries_def)
next
  case (Cons val vals)
  show ?case
  proof (cases "val \<noteq> [] \<and> (hd val = CHR ''='' \<or> hd val = CHR ''+'' \<or> hd val = CHR ''-'')")
    case False
    have "formulas_cols ox oy rw c (val # vals) d = formulas_cols ox oy rw (Suc c) vals d"
      using False by (cases val) auto
    also have "\<dots> = d @ row_entries ox oy rw (Suc c) vals"
      using Cons.prems by (intro Cons.IH) auto
    also have "row_entries ox oy rw (Suc c) vals = row_entries ox oy rw c (val # vals)"
      using False by (auto simp: row_entries_def)
    finally show ?thesis .
  next
    case True
    let ?key = "ExceLintVector (ox + int c) (oy + int rw) 0"
    let ?v = "if hd val = CHR ''='' then drop 1 val else val"
    have fresh: "?key \<notin> fst ` set d"
      using Cons.prems by force
    have "formulas_cols ox oy rw c (val # vals) d =
          formulas_cols ox oy rw (Suc c) vals (put d ?key ?v)"
      using True by (cases val) (auto simp: Let_def)
    also have "put d ?key ?v = d @ [(?key, ?v)]"
      using fresh by (rule put_fresh)
    also have "formulas_cols ox oy rw (Suc c) vals (d @ [(?key, ?v)]) =
               (d @ [(?key, ?v)]) @ row_entries ox oy rw (Suc c) vals"
      using Cons.prems by (intro Cons.IH) auto
    also have "\<dots> = d @ row_entries ox oy rw c (val # vals)"
      using True by (simp add: row_entries_def)
    finally show ?thesis .
  qed
qed

lemma formulas_rows_append:
  "\<forall>k \<in> fst ` set d. vec_y k < oy + int rw \<Longrightarrow>
   formulas_rows ox oy rw grid d =
     d @ concat (map (\<lambda>(i, vals). row_entries ox oy i 0 vals) (enumerate rw grid))"
proof (induction grid arbitrary: rw d)
  case Nil
  then show ?case by simp
next
  case (Cons vals grid)
  have a: "formulas_cols ox oy rw 0 vals d = d @ row_entries ox oy rw 0 vals"
    using Cons.prems by (intro formulas_cols_append) auto
  have "\<forall>k \<in> fst ` set (d @ row_entries ox oy rw 0 vals). vec_y k < oy + int (Suc rw)"
    using Cons.prems row_entries_keys[of _ ox oy rw 0 vals] by fastforce
  from Cons.IH[OF this] a show ?case by simp
qed

lemma put_keys: "fst ` set (put d k v) = insert k (fst ` set d)"
  by (induction d) force+

lemma put_distinct: "distinct (map fst d) \<Longrightarrow> distinct (map fst (put d k v))"
proof (induction d)
  case Nil
  then show ?case by simp
next
  case (Cons p d)
  obtain k' v' where p: "p = (k', v')" by (cases p)
  show ?case
  proof (cases "k' = k")
    case True
    with Cons.prems p show ?thesis by simp
  next
    case False
    have "k' \<notin> fst ` set (put d k v)"
      using Cons.prems p False by (simp add: put_keys)
    with Cons p False show ?thesis by simp
  qed
qed

lemma formulas_cols_distinct:
  "distinct (map fst d) \<Longrightarrow> distinct (map fst (formulas_cols ox oy rw c vals d))"
proof (induction vals arbitrary: c d)
  case Nil
  then show ?case by simp
next
  case (Cons val vals)
  show ?case
  proof (cases val)
    case Nil
    with Cons show ?thesis by simp
  next
    case (Cons v0 rest)
    with Cons.IH Cons.prems show ?thesis
      by (simp add: Let_def put_distinct)
  qed
qed

lemma formulas_rows_distinct:
  "distinct (map fst d) \<Longrightarrow> distinct (map fst (formulas_rows ox oy rw grid d))"
  by (induction grid arbitrary: rw d) (simp_all add: formulas_cols_distinct)

text \<open>
  Claim C2, as the code has it. \<^verbatim>\<open>getFormulasFromRange\<close> returns, in row-major order,
  one entry for each cell of the grid whose text is not empty and begins with \<open>=\<close>,
  \<open>+\<close> or \<open>-\<close>, and no other entry. The key is the vector of the cell: the column
  and row of the range's upper-left corner plus the cell's indices in the grid, sheet 0.
  The stored text is the cell's text without a leading \<open>=\<close>; a text that begins with
  \<open>+\<close> or \<open>-\<close> is stored whole, sign included. No key occurs twice.
\<close>

theorem getFormulasFromRange_entries:
  "getFormulasFromRange r formulas =
     concat (map (\<lambda>(rw, vals).
        map (\<lambda>(c, val).
               (ExceLintVector (upperLeftColumn r + int c) (upperLeftRow r + int rw) 0,
                if hd val = CHR ''='' then drop 1 val else val))
          (filter (\<lambda>(c, val). val \<noteq> [] \<and>
                     (hd val = CHR ''='' \<or> hd val = CHR ''+'' \<or> hd val = CHR ''-''))
             (enumerate 0 vals)))
       (enumerate 0 formulas)) \<and>
   distinct (map fst (getFormulasFromRange r formulas))"
  (is "?entries \<and> ?distinct")
proof -
  have "formulas_rows (upperLeftColumn r) (upperLeftRow r) 0 formulas [] =
        [] @ concat (map (\<lambda>(i, vals). row_entries (upperLeftColumn r) (upperLeftRow r) i 0 vals)
                       (enumerate 0 formulas))"
    by (rule formulas_rows_append) simp
  then have entries: ?entries
    by (simp add: getFormulasFromRange_def row_entries_def)
  have ?distinct
    unfolding getFormulasFromRange_def by (rule formulas_rows_distinct) simp
  with entries show ?thesis by (rule conjI)
qed

text \<open>
  The claim as the spec states it fails for a cell that begins with a sign: the text
  \<open>+A1\<close> is stored as \<open>+A1\<close>, not as \<open>A1\<close>.
\<close>

theorem getFormulasFromRange_keeps_sign:
  "getFormulasFromRange
     \<lparr>upperLeftColumn = 1, upperLeftRow = 1, bottomRightColumn = 1, bottomRightRow = 1\<rparr>
     [[''+A1'']] = [(ExceLintVector 1 1 0, ''+A1'')]"
  by (simp add: getFormulasFromRange_def)

section \<open>Thresholds\<close>

lemma threshold_refilter:
  "t1 \<le> t2 \<Longrightarrow>
   filterFixesByUserThreshold (filterFixesByUserThreshold pfs t1) t2 =
   filterFixesByUserThreshold pfs t2"
  unfolding filterFixesByUserThreshold_def by (induction pfs) auto

text \<open>
  Claim C5. For thresholds \<open>t1 \<le> t2\<close> the fixes that survive at \<open>t2\<close> are among those
  that survive at \<open>t1\<close>, in the same order, and there are no more of them: raising the
  threshold never increases the number of surviving fixes.
\<close>

theorem filterFixesByUserThreshold_monotone:
  assumes "t1 \<le> t2"
  shows "set (filterFixesByUserThreshold pfs t2) \<subseteq> set (filterFixesByUserThreshold pfs t1) \<and>
         subseq (filterFixesByUserThreshold pfs t2) (filterFixesByUserThreshold pfs t1) \<and>
         length (filterFixesByUserThreshold pfs t2) \<le> length (filterFixesByUserThreshold pfs t1)"
proof -
  let ?a = "filterFixesByUserThreshold pfs t1"
  have eq: "filterFixesByUserThreshold pfs t2 = filterFixesByUserThreshold ?a t2"
    using threshold_refilter[OF assms] by simp
  have sub: "subseq (filterFixesByUserThreshold ?a t2) ?a"
    unfolding filterFixesByUserThreshold_def[of ?a] by simp
  have "set (filterFixesByUserThreshold ?a t2) \<subseteq> set ?a"
    unfolding filterFixesByUserThreshold_def[of ?a] by auto
  moreover have "length (filterFixesByUserThreshold ?a t2) \<le> length ?a"
    unfolding filterFixesByUserThreshold_def[of ?a] by simp
  ultimately show ?thesis using eq sub by simp
qed

text \<open>Two fixes with scores 1 and 3, at the thresholds 0 and 2.\<close>

theorem filterFixesByUserThreshold_monotone_witness:
  "filterFixesByUserThreshold
     [\<lparr>score = 1, rect1 = cell_rect 1 1, rect2 = cell_rect 1 2\<rparr>,
      \<lparr>score = 3, rect1 = cell_rect 2 1, rect2 = cell_rect 2 2\<rparr>] 0 =
     [\<lparr>score = 1, rect1 = cell_rect 1 1, rect2 = cell_rect 1 2\<rparr>,
      \<lparr>score = 3, rect1 = cell_rect 2 1, rect2 = cell_rect 2 2\<rparr>] \<and>
   filterFixesByUserThreshold
     [\<lparr>score = 1, rect1 = cell_rect 1 1, rect2 = cell_rect 1 2\<rparr>,
      \<lparr>score = 3, rect1 = cell_rect 2 1, rect2 = cell_rect 2 2\<rparr>] 2 =
     [\<lparr>score = 3, rect1 = cell_rect 2 1, rect2 = cell_rect 2 2\<rparr>] \<and>
   set (filterFixesByUserThreshold
          [\<lparr>score = 1, rect1 = cell_rect 1 1, rect2 = cell_rect 1 2\<rparr>,
           \<lparr>score = 3, rect1 = cell_rect 2 1, rect2 = cell_rect 2 2\<rparr>] 2)
     \<subseteq> set (filterFixesByUserThreshold
          [\<lparr>score = 1, rect1 = cell_rect 1 1, rect2 = cell_rect 1 2\<rparr>,
           \<lparr>score = 3, rect1 = cell_rect 2 1, rect2 = cell_rect 2 2\<rparr>] 0)"
proof -
  have le: "(0::real) \<le> 2" by simp
  show ?thesis
    using filterFixesByUserThreshold_monotone[OF le]
    by (simp add: filterFixesByUserThreshold_def)
qed

section \<open>Merging rectangles\<close>

lemma merge_step_merge_rects: "merge_step (merge_rects rs) = None"
proof (induction rs rule: merge_rects.induct)
  case (1 rs)
  show ?case
  proof (cases "merge_step rs")
    case None
    then show ?thesis by (simp add: merge_rects.simps[of rs])
  next
    case (Some rs')
    then show ?thesis using 1 by (simp add: merge_rects.simps[of rs])
  qed
qed

lemma merge_rects_idem: "merge_rects (merge_rects rs) = merge_rects rs"
  by (subst merge_rects.simps) (simp add: merge_step_merge_rects)

text \<open>
  The union of two mergeable rectangles is a rectangle with exactly the cells of the two.
\<close>

lemma rect_union_cells:
  "well_formed r \<Longrightarrow> well_formed s \<Longrightarrow> mergeable r s \<Longrightarrow>
   rect_contains (rect_union r s) v = (rect_contains r v \<or> rect_contains s v)"
proof -
  obtain a1 b1 z1 a2 b2 z2 where
    r: "r = \<lparr>upperleft = ExceLintVector a1 b1 z1, bottomright = ExceLintVector a2 b2 z2\<rparr>"
    by (cases r; cases "upperleft r"; cases "bottomright r") auto
  obtain c1 d1 w1 c2 d2 w2 where
    s: "s = \<lparr>upperleft = ExceLintVector c1 d1 w1, bottomright = ExceLintVector c2 d2 w2\<rparr>"
    by (cases s; cases "upperleft s"; cases "bottomright s") auto
  obtain x y z where v: "v = ExceLintVector x y z"
    by (cases v)
  assume "well_formed r" "well_formed s" "mergeable r s"
  then have h: "a1 \<le> a2" "b1 \<le> b2" "c1 \<le> c2" "d1 \<le> d2"
    "((a1 = c1 \<and> a2 = c2 \<and> (b2 + 1 = d1 \<or> d2 + 1 = b1)) \<or>
      (b1 = d1 \<and> b2 = d2 \<and> (a2 + 1 = c1 \<or> c2 + 1 = a1)) \<or>
      (a1 \<le> c2 \<and> c1 \<le> a2 \<and> b1 \<le> d2 \<and> d1 \<le> b2)) \<and>
     ((a1 = c1 \<and> a2 = c2 \<and> (b2 + 1 = d1 \<or> d2 + 1 = b1)) \<or>
      (b1 = d1 \<and> b2 = d2 \<and> (a2 + 1 = c1 \<or> c2 + 1 = a1)) \<or>
      (a1 \<le> c1 \<and> c1 \<le> a2 \<and> b1 \<le> d1 \<and> d1 \<le> b2 \<and>
       a1 \<le> c2 \<and> c2 \<le> a2 \<and> b1 \<le> d2 \<and> d2 \<le> b2) \<or>
      (c1 \<le> a1 \<and> a1 \<le> c2 \<and> d1 \<le> b1 \<and> b1 \<le> d2 \<and>
       c1 \<le> a2 \<and> a2 \<le> c2 \<and> d1 \<le> b2 \<and> b2 \<le> d2) \<or>
      ((a1 \<le> c2 \<and> c1 \<le> a2 \<and> b1 \<le> d2 \<and> d1 \<le> b2) \<and>
       ((a1 = c1 \<and> a2 = c2) \<or> (b1 = d1 \<and> b2 = d2))))"
    unfolding r s well_formed_def mergeable_def union_is_rectangle_def adjacent_def covers_def
      overlapping_def same_columns_def same_rows_def rect_contains_def
    by simp_all
  have "(min a1 c1 \<le> x \<and> x \<le> max a2 c2 \<and> min b1 d1 \<le> y \<and> y \<le> max b2 d2) =
        ((a1 \<le> x \<and> x \<le> a2 \<and> b1 \<le> y \<and> y \<le> b2) \<or>
         (c1 \<le> x \<and> x \<le> c2 \<and> d1 \<le> y \<and> y \<le> d2))"
    using h by (auto simp: min_def max_def)
  then show ?thesis
    unfolding r s v rect_contains_def rect_union_def by simp
qed

text \<open>
  On a list with a duplicate and two cells of one column, the duplicate and the
  neighbours are coalesced and the far cell stays.
\<close>

lemma mergeRectangles_example:
  "mergeRectangles [(''f'', [cell_rect 1 1, cell_rect 3 3, cell_rect 1 2, cell_rect 1 1])] =
     [(''f'', [\<lparr>upperleft = ExceLintVector 1 1 0, bottomright = ExceLintVector 1 2 0\<rparr>,
              cell_rect 3 3])]"
  by code_simp

text \<open>
  Claim C6. \<^verbatim>\<open>mergeRectangles\<close> is idempotent: merging an already merged dictionary
  returns it unchanged.
\<close>

theorem mergeRectangles_idempotent: "mergeRectangles (mergeRectangles G) = mergeRectangles G"
  unfolding mergeRectangles_def by (induction G) (auto simp: merge_rects_idem)

section \<open>Duplicate fixes\<close>

lemma pair_equal_trans: "pair_equal f g \<Longrightarrow> pair_equal g h \<Longrightarrow> pair_equal f h"
  by (auto simp: pair_equal_def)

lemma dedup_loop_firsts:
  "(\<And>h. list_ex (\<lambda>g. pair_equal g h) seen = list_ex (\<lambda>g. pair_equal g h) kept) \<Longrightarrow>
   dedup_loop kept pfs = kept @ firsts seen pfs"
proof (induction pfs arbitrary: kept seen)
  case Nil
  then show ?case by simp
next
  case (Cons f fs)
  show ?case
  proof (cases "list_ex (\<lambda>g. pair_equal g f) kept")
    case True
    then obtain g where g: "g \<in> set kept" "pair_equal g f"
      by (auto simp: list_ex_iff)
    have "\<And>h. list_ex (\<lambda>g. pair_equal g h) (seen @ [f]) = list_ex (\<lambda>g. pair_equal g h) kept"
    proof -
      fix h
      have "pair_equal f h \<Longrightarrow> list_ex (\<lambda>g. pair_equal g h) kept"
        using g pair_equal_trans[of g f h] by (auto simp: list_ex_iff)
      then show "list_ex (\<lambda>g. pair_equal g h) (seen @ [f]) = list_ex (\<lambda>g. pair_equal g h) kept"
        using Cons.prems[of h] by auto
    qed
    from Cons.IH[OF this] True Cons.prems[of f] show ?thesis by simp
  next
    case False
    have "\<And>h. list_ex (\<lambda>g. pair_equal g h) (seen @ [f]) =
              list_ex (\<lambda>g. pair_equal g h) (kept @ [f])"
      using Cons.prems by auto
    from Cons.IH[OF this] False Cons.prems[of f] show ?thesis by simp
  qed
qed

lemma firsts_index:
  "firsts seen pfs =
     map (nth (seen @ pfs))
       (filter (\<lambda>i. \<not> list_ex (\<lambda>g. pair_equal g ((seen @ pfs) ! i)) (take i (seen @ pfs)))
          [length seen ..< length seen + length pfs])"
proof (induction pfs arbitrary: seen)
  case Nil
  then show ?case by simp
next
  case (Cons f fs)
  have split: "[length seen ..< length seen + length (f # fs)] =
               length seen # [length (seen @ [f]) ..< length (seen @ [f]) + length fs]"
  proof -
    have "[length seen ..< length seen + Suc (length fs)] =
          length seen # [Suc (length seen) ..< length seen + Suc (length fs)]"
      by (rule upt_conv_Cons) simp
    then show ?thesis by simp
  qed
  have app: "seen @ f # fs = (seen @ [f]) @ fs" by simp
  show ?case
    unfolding firsts.simps split
    by (simp only: app Cons.IH[of "seen @ [f]"]) (simp add: nth_append)
qed

text \<open>Of three fixes, the third is the first with its rectangles swapped.\<close>

lemma filterDuplicateFixes_example:
  "filterDuplicateFixes
     [\<lparr>score = 1, rect1 = cell_rect 1 1, rect2 = cell_rect 1 2\<rparr>,
      \<lparr>score = 2, rect1 = cell_rect 2 1, rect2 = cell_rect 2 2\<rparr>,
      \<lparr>score = 3, rect1 = cell_rect 1 2, rect2 = cell_rect 1 1\<rparr>] =
     [\<lparr>score = 1, rect1 = cell_rect 1 1, rect2 = cell_rect 1 2\<rparr>,
      \<lparr>score = 2, rect1 = cell_rect 2 1, rect2 = cell_rect 2 2\<rparr>]"
  by code_simp

text \<open>
  Claim C7. \<^verbatim>\<open>filterDuplicateFixes\<close> keeps the fix at position \<open>i\<close> exactly when no fix
  at an earlier position of the given list is pair-equal to it, and it keeps the retained
  fixes in their original order: the result is the list of first occurrences. Pair-equality
  does not depend on the order of the two rectangles (nor on the score).
\<close>

theorem filterDuplicateFixes_first_occurrences:
  "filterDuplicateFixes pfs =
     map (nth pfs)
       (filter (\<lambda>i. \<not> list_ex (\<lambda>g. pair_equal g (pfs ! i)) (take i pfs)) [0 ..< length pfs]) \<and>
   pair_equal \<lparr>score = s, rect1 = a, rect2 = b\<rparr> \<lparr>score = s', rect1 = b, rect2 = a\<rparr>"
proof -
  have "dedup_loop [] pfs = [] @ firsts [] pfs"
    by (rule dedup_loop_firsts) simp
  then show ?thesis
    using firsts_index[of "[]" pfs] by (simp add: filterDuplicateFixes_def pair_equal_def)
qed

section \<open>The four stages\<close>

text \<open>The loop over the four arms, unrolled.\<close>

lemma stages_from_four:
  "stages_from env af [a, b, c, d] addr dbg sty 0 s0 =
     (case stage env af a (debug_colors ! 0) addr dbg sty s0 of
        Inl e \<Rightarrow> ([], Inl e)
      | Inr s1 \<Rightarrow>
        (case stage env af b (debug_colors ! 1) addr dbg sty s1 of
           Inl e \<Rightarrow> ([Possibly (proposed_fixes s1, old_colors s1)], Inl e)
         | Inr s2 \<Rightarrow>
           (case stage env af c (debug_colors ! 2) addr dbg sty s2 of
              Inl e \<Rightarrow> ([Possibly (proposed_fixes s1, old_colors s1),
                          Possibly (proposed_fixes s2, old_colors s2)], Inl e)
            | Inr s3 \<Rightarrow>
              (case stage env af d (debug_colors ! 3) addr dbg sty s3 of
                 Inl e \<Rightarrow> ([Possibly (proposed_fixes s1, old_colors s1),
                             Possibly (proposed_fixes s2, old_colors s2),
                             Possibly (proposed_fixes s3, old_colors s3)], Inl e)
               | Inr s4 \<Rightarrow> ([Possibly (proposed_fixes s1, old_colors s1),
                             Possibly (proposed_fixes s2, old_colors s2),
                             Possibly (proposed_fixes s3, old_colors s3),
                             if proposed_fixes s4 = [] then No
                             else Definitely (proposed_fixes s4, old_colors s4)], Inr s4)))))"
proof -
  have s4: "\<And>st. stages_from env af [a, b, c, d] addr dbg sty (Suc (Suc (Suc (Suc 0)))) st = ([], Inr st)"
    by (subst stages_from.simps) simp
  have s3: "\<And>st. stages_from env af [a, b, c, d] addr dbg sty (Suc (Suc (Suc 0))) st =
      (case stage env af d (debug_colors ! 3) addr dbg sty st of
         Inl e \<Rightarrow> ([], Inl e)
       | Inr st' \<Rightarrow> ([if proposed_fixes st' = [] then No
                       else Definitely (proposed_fixes st', old_colors st')], Inr st'))"
    by (subst stages_from.simps) (simp add: s4 numeral_3_eq_3 split: sum.splits)
  have s2: "\<And>st. stages_from env af [a, b, c, d] addr dbg sty (Suc (Suc 0)) st =
      (case stage env af c (debug_colors ! 2) addr dbg sty st of
         Inl e \<Rightarrow> ([], Inl e)
       | Inr st' \<Rightarrow>
          (case stages_from env af [a, b, c, d] addr dbg sty (Suc (Suc (Suc 0))) st' of
             (ys, res) \<Rightarrow> (Possibly (proposed_fixes st', old_colors st') # ys, res)))"
    by (subst stages_from.simps) (simp add: numeral_2_eq_2 split: sum.splits)
  have s1: "\<And>st. stages_from env af [a, b, c, d] addr dbg sty (Suc 0) st =
      (case stage env af b (debug_colors ! 1) addr dbg sty st of
         Inl e \<Rightarrow> ([], Inl e)
       | Inr st' \<Rightarrow>
          (case stages_from env af [a, b, c, d] addr dbg sty (Suc (Suc 0)) st' of
             (ys, res) \<Rightarrow> (Possibly (proposed_fixes st', old_colors st') # ys, res)))"
    by (subst stages_from.simps) (simp split: sum.splits)
  have s0: "\<And>st. stages_from env af [a, b, c, d] addr dbg sty 0 st =
      (case stage env af a (debug_colors ! 0) addr dbg sty st of
         Inl e \<Rightarrow> ([], Inl e)
       | Inr st' \<Rightarrow>
          (case stages_from env af [a, b, c, d] addr dbg sty (Suc 0) st' of
             (ys, res) \<Rightarrow> (Possibly (proposed_fixes st', old_colors st') # ys, res)))"
    by (subst stages_from.simps) (simp split: sum.splits)
  show ?thesis
    by (simp add: s0 s1 s2 s3 split: sum.splits)
qed

lemma analysis_unrolled:
  "incrementalFatCrossAnalysis env ws rng addr dbg sty =
     (let fc = findFatCross env rng addr;
          all_formulas = getFormulasFromRange rng (range_formulas env ws rng)
      in case stage env all_formulas (up fc) (debug_colors ! 0) addr dbg sty
                \<lparr>rects = [], styles = [], old_colors = [], proposed_fixes = [], sheet = ws\<rparr> of
           Inl e \<Rightarrow> \<lparr>yielded = [], returned = Inl e\<rparr>
         | Inr s1 \<Rightarrow>
             (case stage env all_formulas (left fc) (debug_colors ! 1) addr dbg sty s1 of
                Inl e \<Rightarrow> \<lparr>yielded = [Possibly (proposed_fixes s1, old_colors s1)], returned = Inl e\<rparr>
              | Inr s2 \<Rightarrow>
                  (case stage env all_formulas (down fc) (debug_colors ! 2) addr dbg sty s2 of
                     Inl e \<Rightarrow> \<lparr>yielded = [Possibly (proposed_fixes s1, old_colors s1),
                                           Possibly (proposed_fixes s2, old_colors s2)],
                               returned = Inl e\<rparr>
                   | Inr s3 \<Rightarrow>
                       (case stage env all_formulas (right fc) (debug_colors ! 3) addr dbg sty s3 of
                          Inl e \<Rightarrow> \<lparr>yielded = [Possibly (proposed_fixes s1, old_colors s1),
                                                Possibly (proposed_fixes s2, old_colors s2),
                                                Possibly (proposed_fixes s3, old_colors s3)],
                                    returned = Inl e\<rparr>
                        | Inr s4 \<Rightarrow>
                            \<lparr>yielded = [Possibly (proposed_fixes s1, old_colors s1),
                                        Possibly (proposed_fixes s2, old_colors s2),
                                        Possibly (proposed_fixes s3, old_colors s3),
                                        if proposed_fixes s4 = [] then No
                                        else Definitely (proposed_fixes s4, old_colors s4)],
                             returned = Inr (if proposed_fixes s4 = [] then No
                                             else Definitely (proposed_fixes s4, old_colors s4))\<rparr>))))"
  unfolding incrementalFatCrossAnalysis_def Let_def stages_from_four
  by (simp split: sum.splits)

text \<open>
  Claim C1. The analysis runs one stage for each arm of the fat cross, in the order up,
  left, down, right, each stage from the state the stage before it left. Each of the first
  three stages yields \<open>Possibly\<close> with its fixes; the fourth yields \<open>No\<close> if and only if
  its list of fixes is empty, and \<open>Definitely\<close> with that list otherwise. The list of
  yields below is the whole output: never more than four values, and four exactly when
  the analysis returns. (A stage ends in an error only when \<^verbatim>\<open>filterFix\<close> throws; the
  generator then ends with the yields made so far.)
\<close>

theorem incrementalFatCrossAnalysis_four_stages:
  "yielded (incrementalFatCrossAnalysis env ws rng addr dbg sty) =
     (let fc = findFatCross env rng addr;
          all_formulas = getFormulasFromRange rng (range_formulas env ws rng)
      in case stage env all_formulas (up fc) (debug_colors ! 0) addr dbg sty
                \<lparr>rects = [], styles = [], old_colors = [], proposed_fixes = [], sheet = ws\<rparr> of
           Inl e \<Rightarrow> []
         | Inr s1 \<Rightarrow>
             Possibly (proposed_fixes s1, old_colors s1) #
             (case stage env all_formulas (left fc) (debug_colors ! 1) addr dbg sty s1 of
                Inl e \<Rightarrow> []
              | Inr s2 \<Rightarrow>
                  Possibly (proposed_fixes s2, old_colors s2) #
                  (case stage env all_formulas (down fc) (debug_colors ! 2) addr dbg sty s2 of
                     Inl e \<Rightarrow> []
                   | Inr s3 \<Rightarrow>
                       Possibly (proposed_fixes s3, old_colors s3) #
                       (case stage env all_formulas (right fc) (debug_colors ! 3) addr dbg sty s3 of
                          Inl e \<Rightarrow> []
                        | Inr s4 \<Rightarrow>
                            [if proposed_fixes s4 = [] then No
                             else Definitely (proposed_fixes s4, old_colors s4)])))) \<and>
   length (yielded (incrementalFatCrossAnalysis env ws rng addr dbg sty)) \<le> 4 \<and>
   (length (yielded (incrementalFatCrossAnalysis env ws rng addr dbg sty)) = 4) =
     (\<exists>v. returned (incrementalFatCrossAnalysis env ws rng addr dbg sty) = Inr v)"
  unfolding analysis_unrolled Let_def by (simp split: sum.splits)

text \<open>
  The analysis of the sheet \<open>two_shapes\<close> at the cell A2: every stage finds the one fix.
\<close>

lemma sample_run:
  "incrementalFatCrossAnalysis (sample two_shapes) [] used_range target False False =
     \<lparr>yielded = [Possibly ([found_fix], []), Possibly ([found_fix], []),
                 Possibly ([found_fix], []), Definitely ([found_fix], [])],
      returned = Inr (Definitely ([found_fix], []))\<rparr>"
  by code_simp

text \<open>
  Claim C10. When the analysis returns, it has yielded four values and the value it
  returns is the fourth of them: \<open>No\<close>, or \<open>Definitely\<close> with a non-empty list of fixes
  and the old colours, never \<open>Possibly\<close>.
\<close>

theorem incrementalFatCrossAnalysis_returns_last_yield:
  assumes "returned (incrementalFatCrossAnalysis env ws rng addr dbg sty) = Inr v"
  shows "length (yielded (incrementalFatCrossAnalysis env ws rng addr dbg sty)) = 4 \<and>
         yielded (incrementalFatCrossAnalysis env ws rng addr dbg sty) ! 3 = v \<and>
         (case v of No \<Rightarrow> True | Possibly t \<Rightarrow> False | Definitely t \<Rightarrow> fst t \<noteq> [])"
  using assms unfolding analysis_unrolled Let_def
  by (auto split: sum.splits)

theorem incrementalFatCrossAnalysis_returns_last_yield_witness:
  "returned (incrementalFatCrossAnalysis (sample two_shapes) [] used_range target False False) =
     Inr (Definitely ([found_fix], [])) \<and>
   length (yielded (incrementalFatCrossAnalysis (sample two_shapes) [] used_range target False False)) = 4 \<and>
   yielded (incrementalFatCrossAnalysis (sample two_shapes) [] used_range target False False) ! 3 =
     Definitely ([found_fix], [])"
proof -
  have r: "returned (incrementalFatCrossAnalysis (sample two_shapes) [] used_range target False False) =
             Inr (Definitely ([found_fix], []))"
    by (simp add: sample_run)
  from incrementalFatCrossAnalysis_returns_last_yield[OF r] r show ?thesis by simp
qed

section \<open>Fixes include the target cell\<close>














end
